theory Spec2Isabelle
  imports Main "HOL-Library.Word" "HOL-Library.AList"
begin

section \<open>JavaScript values used by the terminal chat widget\<close>

text \<open>
  A JavaScript string is a sequence of UTF-16 code units. String literals of the source
  are ASCII, so \<open>utf16\<close> embeds them code unit by code unit.  An optional parameter
  (\<^verbatim>\<open>shell?: string\<close>, \<^verbatim>\<open>value?: string\<close>) and the result of an optional chain
  (\<^verbatim>\<open>a?.b()\<close>) are \<open>option\<close> values, \<open>None\<close> being \<^verbatim>\<open>undefined\<close>.
\<close>

type_synonym js_string = "16 word list"

definition utf16 :: "string \<Rightarrow> js_string" where
  "utf16 s = map of_char s"

text \<open>
  \<^verbatim>\<open>String.prototype.trim\<close> removes leading and trailing white space and line
  terminators (ECMAScript: TAB, VT, FF, the space separators of Unicode, ZWNBSP, LF, CR,
  LS, PS). All of them are single code units.
\<close>

definition isWhiteSpace :: "16 word \<Rightarrow> bool" where
  "isWhiteSpace c =
     (c \<in> set [0x0009, 0x000A, 0x000B, 0x000C, 0x000D, 0x0020, 0x00A0, 0x1680,
               0x2028, 0x2029, 0x202F, 0x205F, 0x3000, 0xFEFF]
      \<or> (0x2000 \<le> c \<and> c \<le> 0x200A))"

definition trim :: "js_string \<Rightarrow> js_string" where
  "trim s = rev (dropWhile isWhiteSpace (rev (dropWhile isWhiteSpace s)))"

text \<open>\<^verbatim>\<open>!value\<close> for a \<^verbatim>\<open>string | undefined\<close>: true for \<^verbatim>\<open>undefined\<close> and for \<^verbatim>\<open>''\<close>.\<close>

definition falsy :: "js_string option \<Rightarrow> bool" where
  "falsy v = (case v of None \<Rightarrow> True | Some x \<Rightarrow> x = [])"

text \<open>The decimal digits of a non-negative integer, as a template literal prints it.\<close>

fun number_toString :: "nat \<Rightarrow> js_string" where
  "number_toString n =
     (if n < 10 then [of_nat (48 + n)]
      else number_toString (n div 10) @ [of_nat (48 + n mod 10)])"

declare number_toString.simps [simp del]

section \<open>Collaborators of the response editor\<close>

text \<open>
  Modelled from the spec: \<^verbatim>\<open>ILanguageService\<close> (vs/editor/common/languages/language) is
  not part of the sources. The spec calls it the language registry; it is the list of the
  registered language identifiers, and \<^verbatim>\<open>isRegisteredLanguageId\<close> is membership.
\<close>

record ILanguageService =
  registeredLanguageIds :: "js_string list"

definition isRegisteredLanguageId :: "ILanguageService \<Rightarrow> js_string \<Rightarrow> bool" where
  "isRegisteredLanguageId languageService languageId =
     (languageId \<in> set (registeredLanguageIds languageService))"

text \<open>\<^verbatim>\<open>URI.from({ path, scheme, fragment })\<close>: the components the response editor sets.\<close>

record URI =
  scheme :: js_string
  path :: js_string
  fragment :: js_string

text \<open>
  Modelled from the spec: \<^verbatim>\<open>ITextModel\<close> and \<^verbatim>\<open>IModelService\<close>
  (vs/editor/common/model, vs/editor/common/services/model) are not part of the sources.
  The spec describes a registry of text buffers keyed by an identifier, with an
  existing-or-create lookup. A text buffer holds its content, its language and whether it
  has been disposed; \<^verbatim>\<open>getModel\<close> looks the key up, \<^verbatim>\<open>createModel\<close> registers a new
  buffer with the given content under the key and returns it.
\<close>

record ITextModel =
  content :: js_string
  languageId :: "js_string option"
  disposed :: bool

record IModelService =
  models :: "(URI \<times> ITextModel) list"

definition isDisposed :: "ITextModel \<Rightarrow> bool" where
  "isDisposed m = disposed m"

definition setLanguage :: "js_string \<Rightarrow> ITextModel \<Rightarrow> ITextModel" where
  "setLanguage l m = m\<lparr>languageId := Some l\<rparr>"

definition getModel :: "IModelService \<Rightarrow> URI \<Rightarrow> ITextModel option" where
  "getModel modelService resource = map_of (models modelService) resource"

definition createModel ::
  "IModelService \<Rightarrow> js_string \<Rightarrow> js_string option \<Rightarrow> URI \<Rightarrow> bool \<Rightarrow> IModelService \<times> ITextModel" where
  "createModel modelService val languageSelection resource isForSimpleWidget =
     (let m = \<lparr>content = val, languageId = languageSelection, disposed = False\<rparr>
      in (modelService\<lparr>models := AList.update resource m (models modelService)\<rparr>, m))"

text \<open>
  A model is an object that the registry and an editor may both refer to. It is identified
  by the resource it is registered under: a method called on the model changes the
  registered buffer.
\<close>

definition updateModel :: "URI \<Rightarrow> (ITextModel \<Rightarrow> ITextModel) \<Rightarrow> IModelService \<Rightarrow> IModelService" where
  "updateModel resource f modelService =
     (case getModel modelService resource of
        None \<Rightarrow> modelService
      | Some m \<Rightarrow> modelService\<lparr>models := AList.update resource (f m) (models modelService)\<rparr>)"

section \<open>TerminalChatResponseEditor: text model and language\<close>

text \<open>
  \<^verbatim>\<open>_getTextModel\<close>. The function is declared \<^verbatim>\<open>async\<close> but awaits nothing: its body
  runs to its \<^verbatim>\<open>return\<close> at the call, and the promise it returns is resolved with the
  model returned here. The model service is threaded through, since \<^verbatim>\<open>createModel\<close>
  registers the new model.
\<close>

definition getTextModel :: "IModelService \<Rightarrow> URI \<Rightarrow> IModelService \<times> ITextModel" where
  "getTextModel modelService resource =
     (case getModel modelService resource of
        Some existing \<Rightarrow>
          if \<not> isDisposed existing then (modelService, existing)
          else createModel modelService (fragment resource) None resource False
      | None \<Rightarrow> createModel modelService (fragment resource) None resource False)"

text \<open>\<^verbatim>\<open>_getLanguageFromShell\<close>: the \<^verbatim>\<open>switch\<close> compares with \<^verbatim>\<open>===\<close>, case by case.\<close>

definition getLanguageFromShell :: "ILanguageService \<Rightarrow> js_string option \<Rightarrow> js_string" where
  "getLanguageFromShell languageService shell =
     (if shell = Some (utf16 ''fish'') then
        (if isRegisteredLanguageId languageService (utf16 ''fish'')
         then utf16 ''fish'' else utf16 ''shellscript'')
      else if shell = Some (utf16 ''zsh'') then
        (if isRegisteredLanguageId languageService (utf16 ''zsh'')
         then utf16 ''zsh'' else utf16 ''shellscript'')
      else if shell = Some (utf16 ''bash'') then
        (if isRegisteredLanguageId languageService (utf16 ''bash'')
         then utf16 ''bash'' else utf16 ''shellscript'')
      else if shell = Some (utf16 ''sh'') then utf16 ''shellscript''
      else if shell = Some (utf16 ''pwsh'') then utf16 ''powershell''
      else utf16 ''plaintext'')"

section \<open>The panel's collaborators\<close>

text \<open>
  The container elements. An element has its class list, the child nodes the widget puts
  into it (the DOM node of the inline chat widget, the container of a response editor)
  and its \<^verbatim>\<open>style.display\<close>.
  Modelled from the spec: \<^verbatim>\<open>hide\<close> and \<^verbatim>\<open>show\<close> of vs/base/browser/dom are not part
  of the sources; they toggle the element's visibility only, \<^verbatim>\<open>display: none\<close> against
  the default display.
\<close>

datatype dom_node = InlineChatDomNode | EditorContainerNode nat

record HTMLElement =
  classList :: "js_string list"
  childNodes :: "dom_node list"
  style_display :: js_string

definition createElement :: HTMLElement where
  "createElement = \<lparr>classList = [], childNodes = [], style_display = []\<rparr>"

definition classList_add :: "js_string \<Rightarrow> HTMLElement \<Rightarrow> HTMLElement" where
  "classList_add c el =
     (if c \<in> set (classList el) then el else el\<lparr>classList := classList el @ [c]\<rparr>)"

definition classList_remove :: "js_string \<Rightarrow> HTMLElement \<Rightarrow> HTMLElement" where
  "classList_remove c el = el\<lparr>classList := removeAll c (classList el)\<rparr>"

definition prepend :: "dom_node \<Rightarrow> HTMLElement \<Rightarrow> HTMLElement" where
  "prepend n el = el\<lparr>childNodes := n # removeAll n (childNodes el)\<rparr>"

definition appendChild :: "dom_node \<Rightarrow> HTMLElement \<Rightarrow> HTMLElement" where
  "appendChild n el = el\<lparr>childNodes := removeAll n (childNodes el) @ [n]\<rparr>"

definition removeChild :: "dom_node \<Rightarrow> HTMLElement \<Rightarrow> HTMLElement" where
  "removeChild n el = el\<lparr>childNodes := removeAll n (childNodes el)\<rparr>"

definition dom_hide :: "HTMLElement \<Rightarrow> HTMLElement" where
  "dom_hide el = el\<lparr>style_display := utf16 ''none''\<rparr>"

definition dom_show :: "HTMLElement \<Rightarrow> HTMLElement" where
  "dom_show el = el\<lparr>style_display := []\<rparr>"

text \<open>
  Modelled from the spec: \<^verbatim>\<open>localize\<close> of vs/nls is not part of the sources; without a
  language pack it returns the default message.
\<close>

definition localize :: "string \<Rightarrow> string \<Rightarrow> js_string" where
  "localize key message = utf16 message"

text \<open>
  Modelled from the spec: \<^verbatim>\<open>InlineChatWidget\<close> (vs/workbench/contrib/inlineChat) is not
  part of the sources. It is the nested chat widget: its placeholder, its info line, the
  text of its input, the chat message it shows, its follow-ups (the panel only ever
  clears them; a follow-up is kept as its label), and whether it shows progress and the
  toolbar. Each setter and \<^verbatim>\<open>update...\<close> method stores its argument.
  \<^verbatim>\<open>layout\<close> and \<^verbatim>\<open>focus\<close> are recorded as calls (see \<open>collaborator_call\<close>).
\<close>

record IChatMessage =
  msg_message :: js_string
  msg_requestId :: js_string
  msg_providerId :: js_string

datatype IChatFollowup = ChatFollowup js_string

record InlineChatWidget =
  placeholder :: js_string
  info :: js_string
  inputValue :: js_string
  chatMessage :: "IChatMessage option"
  followUps :: "IChatFollowup list option"
  progress :: bool
  toolbar :: bool

definition updateInfo :: "js_string \<Rightarrow> InlineChatWidget \<Rightarrow> InlineChatWidget" where
  "updateInfo m icw = icw\<lparr>info := m\<rparr>"

definition updateChatMessage :: "IChatMessage option \<Rightarrow> InlineChatWidget \<Rightarrow> InlineChatWidget" where
  "updateChatMessage m icw = icw\<lparr>chatMessage := m\<rparr>"

definition updateFollowUps :: "IChatFollowup list option \<Rightarrow> InlineChatWidget \<Rightarrow> InlineChatWidget" where
  "updateFollowUps f icw = icw\<lparr>followUps := f\<rparr>"

definition updateProgress :: "bool \<Rightarrow> InlineChatWidget \<Rightarrow> InlineChatWidget" where
  "updateProgress b icw = icw\<lparr>progress := b\<rparr>"

definition updateToolbar :: "bool \<Rightarrow> InlineChatWidget \<Rightarrow> InlineChatWidget" where
  "updateToolbar b icw = icw\<lparr>toolbar := b\<rparr>"

text \<open>
  The calls the panel makes on collaborators whose effect lies outside the panel, in the
  order it makes them: the accessibility service, the terminal instance, and the layout
  and focus requests to the inline chat widget.
\<close>

datatype collaborator_call =
    AcceptResponse js_string int
  | RunCommand js_string bool
  | InstanceFocus
  | InlineChatLayout nat nat
  | InlineChatFocus

record ITerminalInstance =
  instanceId :: nat

text \<open>
  Modelled from the spec: \<^verbatim>\<open>CodeEditorWidget\<close> (vs/editor/browser/widget) is not part of
  the sources. The response editor wraps one embedded text surface, backed by a text
  buffer: the editor shows the buffer attached to it with \<^verbatim>\<open>setModel\<close>. \<^verbatim>\<open>getValue\<close>
  reads the text of that buffer and \<^verbatim>\<open>setValue\<close> replaces it wholesale. A new editor has
  no buffer attached and so no text: \<^verbatim>\<open>getValue\<close> is the empty string and \<^verbatim>\<open>setValue\<close>
  has nothing to replace.
\<close>

record CodeEditorWidget =
  widgetRef :: nat
  editorModel :: "URI option"

definition setModel :: "URI \<Rightarrow> CodeEditorWidget \<Rightarrow> CodeEditorWidget" where
  "setModel resource ed = ed\<lparr>editorModel := Some resource\<rparr>"

definition CodeEditorWidget_getValue :: "IModelService \<Rightarrow> CodeEditorWidget \<Rightarrow> js_string" where
  "CodeEditorWidget_getValue modelService ed =
     (case editorModel ed of
        None \<Rightarrow> []
      | Some resource \<Rightarrow>
          (case getModel modelService resource of None \<Rightarrow> [] | Some m \<Rightarrow> content m))"

definition CodeEditorWidget_setValue ::
  "js_string \<Rightarrow> CodeEditorWidget \<Rightarrow> IModelService \<Rightarrow> IModelService" where
  "CodeEditorWidget_setValue val ed modelService =
     (case editorModel ed of
        None \<Rightarrow> modelService
      | Some resource \<Rightarrow> updateModel resource (\<lambda>m. m\<lparr>content := val\<rparr>) modelService)"

section \<open>TerminalChatResponseEditor\<close>

text \<open>
  \<open>instanceRef\<close> is the identity of the object: \<^verbatim>\<open>createInstance\<close> gives every object
  it constructs the next reference. \<open>model\<close> is the value the promise \<^verbatim>\<open>this.model\<close> is
  resolved with: the model, given by its resource, or \<^verbatim>\<open>null\<close>. \<^verbatim>\<open>setValue\<close> and
  \<^verbatim>\<open>getValue\<close> pass to the embedded editor; the text is in the model service.
\<close>

record TerminalChatResponseEditor =
  instanceRef :: nat
  editorContainer :: HTMLElement
  editor :: CodeEditorWidget
  model :: "URI option"

definition editor_setValue ::
  "js_string \<Rightarrow> TerminalChatResponseEditor \<Rightarrow> IModelService \<Rightarrow> IModelService" where
  "editor_setValue val e modelService = CodeEditorWidget_setValue val (editor e) modelService"

definition editor_getValue :: "IModelService \<Rightarrow> TerminalChatResponseEditor \<Rightarrow> js_string" where
  "editor_getValue modelService e = CodeEditorWidget_getValue modelService (editor e)"

definition editor_hide :: "TerminalChatResponseEditor \<Rightarrow> TerminalChatResponseEditor" where
  "editor_hide e = e\<lparr>editorContainer := dom_hide (editorContainer e)\<rparr>"

definition editor_show :: "TerminalChatResponseEditor \<Rightarrow> TerminalChatResponseEditor" where
  "editor_show e = e\<lparr>editorContainer := dom_show (editorContainer e)\<rparr>"

section \<open>TerminalChatWidget\<close>

text \<open>
  The panel with the services injected into it. \<open>container\<close>, \<open>inlineChatWidget\<close>,
  \<open>responseEditor\<close> and the two context keys are the fields of the class (a context key
  holds no value until it is set); \<open>terminalInstance\<close> is \<^verbatim>\<open>_instance\<close>.
  \<open>instancesCreated\<close> counts the objects the instantiation service has constructed,
  \<open>disposedInstances\<close> lists the references of the objects that have been disposed,
  \<open>modelService\<close> and \<open>languageService\<close> are the services the response editor is
  given, and \<open>calls\<close> is the log of calls on collaborators.

  \<open>microtasks\<close> is the queue of promise continuations that have been registered and have
  not run yet. The only one is the continuation the constructor of the response editor
  registers with \<^verbatim>\<open>this.model.then\<close>: it holds the response editor it belongs to, the value
  the promise is resolved with and the shell type it has captured. It runs when the
  call that is running has returned (\<open>runMicrotasks\<close>).
\<close>

datatype microtask = ModelThen nat "URI option" "js_string option"

record TerminalChatWidget =
  container :: HTMLElement
  inlineChatWidget :: InlineChatWidget
  responseEditor :: "TerminalChatResponseEditor option"
  focusedContextKey :: "bool option"
  visibleContextKey :: "bool option"
  terminalInstance :: ITerminalInstance
  instancesCreated :: nat
  disposedInstances :: "nat list"
  modelService :: IModelService
  languageService :: ILanguageService
  calls :: "collaborator_call list"
  microtasks :: "microtask list"

text \<open>
  The constructor of \<^verbatim>\<open>TerminalChatResponseEditor\<close>: the editor container is created and
  prepended to the panel's container, the embedded editor is created, and
  \<^verbatim>\<open>_getTextModel\<close> resolves the model for the resource built from the terminal's instance
  id and the initial command. The model it returns is the one registered under the
  resource, so the promise \<^verbatim>\<open>this.model\<close> is resolved with that resource. The
  continuation given to \<^verbatim>\<open>this.model.then\<close> is queued; the constructor returns before
  it runs.
\<close>

definition TerminalChatResponseEditor_new ::
  "js_string \<Rightarrow> js_string option \<Rightarrow> TerminalChatWidget
   \<Rightarrow> TerminalChatWidget \<times> TerminalChatResponseEditor" where
  "TerminalChatResponseEditor_new initialCommandResponse shellType w =
     (let r = instancesCreated w;
          w1 = w\<lparr>instancesCreated := r + 1\<rparr>;
          ec = classList_add (utf16 ''terminal-inline-chat-response'') createElement;
          w2 = w1\<lparr>container := prepend (EditorContainerNode r) (container w1)\<rparr>;
          ed = \<lparr>widgetRef = instancesCreated w2, editorModel = None\<rparr>;
          w3 = w2\<lparr>instancesCreated := instancesCreated w2 + 1\<rparr>;
          resource = \<lparr>scheme = utf16 ''terminal-inline-chat'',
                      path = utf16 ''terminal-inline-chat-''
                             @ number_toString (instanceId (terminalInstance w3)),
                      fragment = initialCommandResponse\<rparr>;
          (ms, m) = getTextModel (modelService w3) resource;
          w4 = w3\<lparr>modelService := ms\<rparr>;
          w5 = w4\<lparr>microtasks := microtasks w4 @ [ModelThen r (Some resource) shellType]\<rparr>
      in (w5, \<lparr>instanceRef = r, editorContainer = ec, editor = ed, model = Some resource\<rparr>))"

text \<open>
  The continuation of \<^verbatim>\<open>this.model.then\<close>, for the response editor \<open>ref\<close>: when the
  promise was resolved with a model, the model is attached to the embedded editor with
  \<^verbatim>\<open>editor.setModel\<close> and is given the language of the shell. (The layout calls of the
  continuation concern the editor's size only.) The embedded editor is reached through
  the panel when the panel still holds the response editor; after \<^verbatim>\<open>hide\<close> the editor is
  disposed and out of the panel's reach, and only the model is changed.
\<close>

definition model_then ::
  "nat \<Rightarrow> URI option \<Rightarrow> js_string option \<Rightarrow> TerminalChatWidget \<Rightarrow> TerminalChatWidget" where
  "model_then ref resolved shellType w =
     (case resolved of
        None \<Rightarrow> w
      | Some resource \<Rightarrow>
          (let w1 = w\<lparr>responseEditor :=
                      map_option
                        (\<lambda>e. if instanceRef e = ref
                             then e\<lparr>editor := setModel resource (editor e)\<rparr> else e)
                        (responseEditor w)\<rparr>;
               languageId = getLanguageFromShell (languageService w1) shellType
           in w1\<lparr>modelService :=
                   updateModel resource (setLanguage languageId) (modelService w1)\<rparr>))"

fun run_microtask :: "microtask \<Rightarrow> TerminalChatWidget \<Rightarrow> TerminalChatWidget" where
  "run_microtask (ModelThen ref resolved shellType) w = model_then ref resolved shellType w"

text \<open>The queued continuations run in the order they were registered.\<close>

definition runMicrotasks :: "TerminalChatWidget \<Rightarrow> TerminalChatWidget" where
  "runMicrotasks w = fold run_microtask (microtasks w) (w\<lparr>microtasks := []\<rparr>)"

text \<open>
  \<^verbatim>\<open>dispose\<close> of the response editor (inherited from \<^verbatim>\<open>Disposable\<close>): the registered
  disposables run, so the editor container is removed from the panel's container and the
  embedded editor is disposed with the response editor.
\<close>

definition dispose :: "TerminalChatResponseEditor \<Rightarrow> TerminalChatWidget \<Rightarrow> TerminalChatWidget" where
  "dispose e w =
     w\<lparr>container := removeChild (EditorContainerNode (instanceRef e)) (container w),
       disposedInstances := disposedInstances w @ [widgetRef (editor e), instanceRef e]\<rparr>"

text \<open>
  The constructor of the panel. The instantiation service constructs the unattached
  parent editor and the inline chat widget; the latter is a parameter, in the state its
  own constructor leaves it in.
\<close>

definition TerminalChatWidget_new ::
  "ITerminalInstance \<Rightarrow> InlineChatWidget \<Rightarrow> nat \<Rightarrow> IModelService \<Rightarrow> ILanguageService
   \<Rightarrow> TerminalChatWidget" where
  "TerminalChatWidget_new inst createdInlineChatWidget created ms ls =
     (let c = classList_add (utf16 ''terminal-inline-chat'') createElement;
          icw = updateInfo (localize ''welcome.1'' ''AI-generated commands may be incorrect'')
                  (createdInlineChatWidget\<lparr>placeholder :=
                     localize ''default.placeholder'' ''Ask how to do something in the terminal''\<rparr>)
      in \<lparr>container = appendChild InlineChatDomNode c,
          inlineChatWidget = icw,
          responseEditor = None,
          focusedContextKey = None,
          visibleContextKey = None,
          terminalInstance = inst,
          instancesCreated = created + 2,
          disposedInstances = [],
          modelService = ms,
          languageService = ls,
          calls = [],
          microtasks = []\<rparr>)"

definition reset :: "TerminalChatWidget \<Rightarrow> TerminalChatWidget" where
  "reset w =
     w\<lparr>inlineChatWidget :=
         updateInfo (localize ''welcome.1'' ''AI-generated commands may be incorrect'')
           ((inlineChatWidget w)\<lparr>placeholder :=
              localize ''default.placeholder'' ''Ask how to do something in the terminal''\<rparr>)\<rparr>"

text \<open>
  \<^verbatim>\<open>renderTerminalCommand\<close> is declared \<^verbatim>\<open>async\<close> and awaits nothing, so it runs to its
  end at the call.
\<close>

definition renderTerminalCommand ::
  "js_string \<Rightarrow> int \<Rightarrow> js_string option \<Rightarrow> TerminalChatWidget \<Rightarrow> TerminalChatWidget" where
  "renderTerminalCommand command requestId shellType w =
     (let w1 = w\<lparr>calls := calls w @ [AcceptResponse command requestId]\<rparr>;
          w2 = w1\<lparr>responseEditor := map_option editor_show (responseEditor w1)\<rparr>;
          (w3, e) = (case responseEditor w2 of
                       None \<Rightarrow>
                         (let (w', e) = TerminalChatResponseEditor_new command shellType w2
                          in (w'\<lparr>responseEditor := Some e\<rparr>, e))
                     | Some e \<Rightarrow> (w2, e))
      in w3\<lparr>modelService := editor_setValue command e (modelService w3)\<rparr>)"

definition renderMessage ::
  "js_string \<Rightarrow> int \<Rightarrow> js_string \<Rightarrow> TerminalChatWidget \<Rightarrow> TerminalChatWidget" where
  "renderMessage message accessibilityRequestId requestId w =
     (let w1 = w\<lparr>responseEditor := map_option editor_hide (responseEditor w)\<rparr>;
          w2 = w1\<lparr>inlineChatWidget :=
                  updateChatMessage
                    (Some \<lparr>msg_message = message, msg_requestId = requestId,
                           msg_providerId = utf16 ''terminal''\<rparr>)
                    (inlineChatWidget w1)\<rparr>
      in w2\<lparr>calls := calls w2 @ [AcceptResponse message accessibilityRequestId]\<rparr>)"

definition reveal :: "TerminalChatWidget \<Rightarrow> TerminalChatWidget" where
  "reveal w =
     (let w1 = w\<lparr>calls := calls w @ [InlineChatLayout 640 150]\<rparr>;
          w2 = w1\<lparr>container := classList_remove (utf16 ''hide'') (container w1)\<rparr>;
          w3 = w2\<lparr>focusedContextKey := Some True\<rparr>;
          w4 = w3\<lparr>visibleContextKey := Some True\<rparr>
      in w4\<lparr>calls := calls w4 @ [InlineChatFocus]\<rparr>)"

definition hide :: "TerminalChatWidget \<Rightarrow> TerminalChatWidget" where
  "hide w =
     (let w1 = w\<lparr>container := classList_add (utf16 ''hide'') (container w)\<rparr>;
          w2 = reset w1;
          w3 = (case responseEditor w2 of None \<Rightarrow> w2 | Some e \<Rightarrow> dispose e w2);
          w4 = w3\<lparr>responseEditor := None\<rparr>;
          w5 = w4\<lparr>inlineChatWidget := updateChatMessage None (inlineChatWidget w4)\<rparr>;
          w6 = w5\<lparr>inlineChatWidget := updateFollowUps None (inlineChatWidget w5)\<rparr>;
          w7 = w6\<lparr>inlineChatWidget := updateProgress False (inlineChatWidget w6)\<rparr>;
          w8 = w7\<lparr>inlineChatWidget := updateToolbar False (inlineChatWidget w7)\<rparr>;
          w9 = w8\<lparr>focusedContextKey := Some False\<rparr>;
          w10 = w9\<lparr>visibleContextKey := Some False\<rparr>
      in w10\<lparr>calls := calls w10 @ [InstanceFocus]\<rparr>)"


definition input :: "TerminalChatWidget \<Rightarrow> js_string" where
  "input w = inputValue (inlineChatWidget w)"

definition setValue :: "js_string option \<Rightarrow> TerminalChatWidget \<Rightarrow> TerminalChatWidget" where
  "setValue val w =
     (let w1 = w\<lparr>inlineChatWidget :=
                  (inlineChatWidget w)\<lparr>inputValue := (case val of None \<Rightarrow> [] | Some v \<Rightarrow> v)\<rparr>\<rparr>
      in if falsy val
         then w1\<lparr>responseEditor := map_option editor_hide (responseEditor w1)\<rparr>
         else w1)"

definition acceptCommand :: "bool \<Rightarrow> TerminalChatWidget \<Rightarrow> TerminalChatWidget" where
  "acceptCommand shouldExecute w =
     (let val = map_option (\<lambda>e. trim (editor_getValue (modelService w) e)) (responseEditor w)
      in case val of
           None \<Rightarrow> w
         | Some v \<Rightarrow>
             if v = [] then w
             else hide (w\<lparr>calls := calls w @ [RunCommand v shouldExecute]\<rparr>))"





section \<open>OneDataSystemWebAppender\<close>

text \<open>
  An object as a program can observe it: the classes of its prototype chain, most derived
  first, the fields it holds (its state) and the methods it offers through the chain (its
  operations). A class declaration contributes its name, the fields it declares (field
  declarations and parameter properties) and the methods it declares.
\<close>

record 'v js_object =
  prototypeChain :: "string list"
  fieldValues :: "(string \<times> 'v) list"
  methodNames :: "string list"

record 'v class_declaration =
  className :: string
  declaredFields :: "(string \<times> 'v) list"
  declaredMethods :: "string list"

definition extend :: "'v class_declaration \<Rightarrow> 'v js_object \<Rightarrow> 'v js_object" where
  "extend c this =
     \<lparr>prototypeChain = className c # prototypeChain this,
      fieldValues = fieldValues this @ declaredFields c,
      methodNames = declaredMethods c @ methodNames this\<rparr>"

text \<open>
  The class \<^verbatim>\<open>OneDataSystemWebAppender\<close> declares a constructor and nothing else; none of
  the constructor's parameters is a parameter property.
\<close>

definition OneDataSystemWebAppender_class :: "'v class_declaration" where
  "OneDataSystemWebAppender_class =
     \<lparr>className = ''OneDataSystemWebAppender'', declaredFields = [], declaredMethods = []\<rparr>"

text \<open>
  The base class \<^verbatim>\<open>AbstractOneDataSystemAppender\<close> (vs/platform/telemetry/common) is not
  part of the sources: its constructor is the parameter \<open>super\<close>, which returns either
  the error it throws or the object it has initialised. The constructor of the subclass
  has no statement but the call of \<^verbatim>\<open>super\<close>. The last argument is an instrumentation key
  or a factory of the telemetry client.
\<close>

datatype 'core iKeyOrClientFactory = IKey js_string | ClientFactory "unit \<Rightarrow> 'core"

definition OneDataSystemWebAppender ::
  "(bool \<Rightarrow> js_string \<Rightarrow> 'data option \<Rightarrow> 'core iKeyOrClientFactory \<Rightarrow> 'err + 'v js_object)
   \<Rightarrow> bool \<Rightarrow> js_string \<Rightarrow> 'data option \<Rightarrow> 'core iKeyOrClientFactory
   \<Rightarrow> 'err + 'v js_object" where
  "OneDataSystemWebAppender super isInternalTelemetry eventPrefix defaultData iKeyOrClientFactory =
     (case super isInternalTelemetry eventPrefix defaultData iKeyOrClientFactory of
        Inl err \<Rightarrow> Inl err
      | Inr this \<Rightarrow> Inr (extend OneDataSystemWebAppender_class this))"

section \<open>Example states\<close>

text \<open>
  A panel as its constructor leaves it, for terminal instance 1, an empty model service
  and an empty language registry; the same panel after a command has been rendered and
  the call has returned; and a base class of the appender that rejects an empty key.
\<close>

abbreviation example_inlineChatWidget :: InlineChatWidget where
  "example_inlineChatWidget \<equiv>
     \<lparr>placeholder = [], info = [], inputValue = [], chatMessage = None, followUps = None,
      progress = False, toolbar = False\<rparr>"

abbreviation example_panel :: TerminalChatWidget where
  "example_panel \<equiv>
     TerminalChatWidget_new \<lparr>instanceId = 1\<rparr> example_inlineChatWidget 0 \<lparr>models = []\<rparr>
       \<lparr>registeredLanguageIds = []\<rparr>"

abbreviation example_panel_with_response :: TerminalChatWidget where
  "example_panel_with_response \<equiv>
     runMicrotasks
       (renderTerminalCommand (utf16 ''  ls -la '') 7 (Some (utf16 ''bash'')) example_panel)"

abbreviation example_base_appender ::
  "bool \<Rightarrow> js_string \<Rightarrow> unit option \<Rightarrow> unit iKeyOrClientFactory \<Rightarrow> string + js_string js_object" where
  "example_base_appender \<equiv>
     (\<lambda>isInternalTelemetry eventPrefix defaultData iKeyOrClientFactory.
        if iKeyOrClientFactory = IKey [] then Inl ''Invalid instrumentation key''
        else Inr \<lparr>prototypeChain = [''AbstractOneDataSystemAppender''],
                  fieldValues = [(''_eventPrefix'', eventPrefix)],
                  methodNames = [''log'', ''flush'']\<rparr>)"

section \<open>Properties of \<open>trim\<close>\<close>

lemma trim_decomposition:
  "\<exists>pre post. s = pre @ trim s @ post
      \<and> (\<forall>c\<in>set pre. isWhiteSpace c) \<and> (\<forall>c\<in>set post. isWhiteSpace c)"
proof -
  let ?a = "takeWhile isWhiteSpace s"
  let ?b = "dropWhile isWhiteSpace s"
  let ?c = "rev (takeWhile isWhiteSpace (rev ?b))"
  have "rev ?b = takeWhile isWhiteSpace (rev ?b) @ dropWhile isWhiteSpace (rev ?b)"
    by simp
  then have "rev (rev ?b) = rev (dropWhile isWhiteSpace (rev ?b)) @ ?c"
    by (simp only: rev_append [symmetric])
  then have "?b = trim s @ ?c"
    by (simp only: rev_rev_ident trim_def)
  moreover have "s = ?a @ ?b"
    by simp
  ultimately have eq: "s = ?a @ trim s @ ?c"
    by simp
  have a: "\<forall>c\<in>set ?a. isWhiteSpace c"
    by (auto dest: set_takeWhileD)
  have c: "\<forall>c\<in>set ?c. isWhiteSpace c"
    by (auto dest: set_takeWhileD)
  show ?thesis
  proof (intro exI conjI)
    show "s = ?a @ trim s @ ?c" by (fact eq)
    show "\<forall>c\<in>set ?a. isWhiteSpace c" by (fact a)
    show "\<forall>c\<in>set ?c. isWhiteSpace c" by (fact c)
  qed
qed

lemma trim_no_leading_white:
  assumes "trim s \<noteq> []"
  shows "\<not> isWhiteSpace (hd (trim s))"
proof -
  let ?b = "dropWhile isWhiteSpace s"
  have "rev ?b = takeWhile isWhiteSpace (rev ?b) @ dropWhile isWhiteSpace (rev ?b)"
    by simp
  then have split: "?b = trim s @ rev (takeWhile isWhiteSpace (rev ?b))"
    unfolding trim_def by (metis rev_append rev_rev_ident)
  with assms have "hd ?b = hd (trim s)"
    by (metis hd_append2)
  moreover from split assms have "?b \<noteq> []"
    by (metis append_is_Nil_conv)
  then have "\<not> isWhiteSpace (hd ?b)"
    by (rule hd_dropWhile)
  ultimately show ?thesis by simp
qed

lemma trim_no_trailing_white:
  "trim s \<noteq> [] \<Longrightarrow> \<not> isWhiteSpace (last (trim s))"
  unfolding trim_def
  by (metis hd_dropWhile last_rev rev_is_Nil_conv)

lemma trim_example: "trim (utf16 ''  ls -la '') = utf16 ''ls -la''"
  by (simp add: trim_def utf16_def isWhiteSpace_def)

section \<open>Properties of the shell-kind to language mapping\<close>

lemma shell_names_distinct:
  "utf16 ''fish'' \<noteq> utf16 ''zsh''" "utf16 ''fish'' \<noteq> utf16 ''bash''"
  "utf16 ''fish'' \<noteq> utf16 ''sh''" "utf16 ''fish'' \<noteq> utf16 ''pwsh''"
  "utf16 ''zsh'' \<noteq> utf16 ''bash''" "utf16 ''zsh'' \<noteq> utf16 ''sh''"
  "utf16 ''zsh'' \<noteq> utf16 ''pwsh''" "utf16 ''bash'' \<noteq> utf16 ''sh''"
  "utf16 ''bash'' \<noteq> utf16 ''pwsh''" "utf16 ''sh'' \<noteq> utf16 ''pwsh''"
  by (simp_all add: utf16_def)

lemma language_names_distinct:
  "utf16 ''powershell'' \<noteq> utf16 ''shellscript''"
  "utf16 ''plaintext'' \<noteq> utf16 ''shellscript''"
  "utf16 ''fish'' \<noteq> utf16 ''shellscript''"
  by (simp_all add: utf16_def)

text \<open>
  Claim C3. The mapping from the shell kind to the language is a total function of the shell kind
  and the language registry: fish, zsh and bash map to themselves when registered and to
  shellscript otherwise, sh maps to shellscript, pwsh to powershell, and every other
  shell kind, the absent one included, to plaintext.
\<close>

theorem getLanguageFromShell_table:
  "getLanguageFromShell ls (Some (utf16 ''fish'')) =
     (if isRegisteredLanguageId ls (utf16 ''fish'') then utf16 ''fish'' else utf16 ''shellscript'')
   \<and> getLanguageFromShell ls (Some (utf16 ''zsh'')) =
     (if isRegisteredLanguageId ls (utf16 ''zsh'') then utf16 ''zsh'' else utf16 ''shellscript'')
   \<and> getLanguageFromShell ls (Some (utf16 ''bash'')) =
     (if isRegisteredLanguageId ls (utf16 ''bash'') then utf16 ''bash'' else utf16 ''shellscript'')
   \<and> getLanguageFromShell ls (Some (utf16 ''sh'')) = utf16 ''shellscript''
   \<and> getLanguageFromShell ls (Some (utf16 ''pwsh'')) = utf16 ''powershell''
   \<and> getLanguageFromShell ls None = utf16 ''plaintext''
   \<and> (shell \<notin> {Some (utf16 ''fish''), Some (utf16 ''zsh''), Some (utf16 ''bash''),
                Some (utf16 ''sh''), Some (utf16 ''pwsh'')}
        \<longrightarrow> getLanguageFromShell ls shell = utf16 ''plaintext'')"
  using shell_names_distinct
  by (simp add: getLanguageFromShell_def)

theorem getLanguageFromShell_table_witness:
  "Some (utf16 ''cmd'') \<notin> {Some (utf16 ''fish''), Some (utf16 ''zsh''), Some (utf16 ''bash''),
                Some (utf16 ''sh''), Some (utf16 ''pwsh'')}
   \<and> getLanguageFromShell \<lparr>registeredLanguageIds = [utf16 ''fish'']\<rparr> (Some (utf16 ''cmd''))
       = utf16 ''plaintext''
   \<and> getLanguageFromShell \<lparr>registeredLanguageIds = [utf16 ''fish'']\<rparr> (Some (utf16 ''fish''))
       = utf16 ''fish''
   \<and> getLanguageFromShell \<lparr>registeredLanguageIds = [utf16 ''fish'']\<rparr> (Some (utf16 ''zsh''))
       = utf16 ''shellscript''"
  using getLanguageFromShell_table
    [of "\<lparr>registeredLanguageIds = [utf16 ''fish'']\<rparr>" "Some (utf16 ''cmd'')"]
  by (simp add: utf16_def isRegisteredLanguageId_def)

text \<open>
  Claim C2, as amended. For fish, zsh and bash, a language that is not registered makes the
  mapping return shellscript; sh always maps to shellscript; pwsh maps to powershell
  without the registry being asked.
\<close>

theorem getLanguageFromShell_fallback:
  "(shell \<in> {utf16 ''fish'', utf16 ''zsh'', utf16 ''bash''}
      \<and> \<not> isRegisteredLanguageId ls shell
      \<longrightarrow> getLanguageFromShell ls (Some shell) = utf16 ''shellscript'')
   \<and> getLanguageFromShell ls (Some (utf16 ''sh'')) = utf16 ''shellscript''
   \<and> getLanguageFromShell ls (Some (utf16 ''pwsh'')) = utf16 ''powershell''"
  using shell_names_distinct
  by (auto simp add: getLanguageFromShell_def)

theorem getLanguageFromShell_fallback_witness:
  "utf16 ''zsh'' \<in> {utf16 ''fish'', utf16 ''zsh'', utf16 ''bash''}
   \<and> \<not> isRegisteredLanguageId \<lparr>registeredLanguageIds = [utf16 ''fish'', utf16 ''powershell'']\<rparr> (utf16 ''zsh'')
   \<and> getLanguageFromShell \<lparr>registeredLanguageIds = [utf16 ''fish'', utf16 ''powershell'']\<rparr>
        (Some (utf16 ''zsh'')) = utf16 ''shellscript''"
  using getLanguageFromShell_fallback
    [of "utf16 ''zsh''" "\<lparr>registeredLanguageIds = [utf16 ''fish'', utf16 ''powershell'']\<rparr>"]
  by (simp add: utf16_def isRegisteredLanguageId_def)

text \<open>
  Claim C2 as stated fails for pwsh: with no language registered, powershell is not
  registered, and the mapping still returns powershell, not shellscript.
\<close>

theorem getLanguageFromShell_pwsh_no_fallback:
  "\<not> isRegisteredLanguageId \<lparr>registeredLanguageIds = []\<rparr> (utf16 ''powershell'')
   \<and> getLanguageFromShell \<lparr>registeredLanguageIds = []\<rparr> (Some (utf16 ''pwsh'')) = utf16 ''powershell''
   \<and> getLanguageFromShell \<lparr>registeredLanguageIds = []\<rparr> (Some (utf16 ''pwsh'')) \<noteq> utf16 ''shellscript''"
  by (simp add: getLanguageFromShell_def isRegisteredLanguageId_def utf16_def)

section \<open>Properties of the text model resolution\<close>

text \<open>
  Claim C7. The resolution returns the model registered under the resource when there is one
  and it is not disposed, leaving the model service as it is; otherwise it creates a
  model whose content is the fragment of the resource, registers it under the resource
  and returns it.
\<close>

theorem getTextModel_existing_or_create:
  "(\<forall>existing. getModel ms r = Some existing \<and> \<not> isDisposed existing
        \<longrightarrow> getTextModel ms r = (ms, existing))
   \<and> ((getModel ms r = None \<or> (\<exists>existing. getModel ms r = Some existing \<and> isDisposed existing))
        \<longrightarrow> getTextModel ms r = createModel ms (fragment r) None r False
          \<and> content (snd (getTextModel ms r)) = fragment r
          \<and> \<not> isDisposed (snd (getTextModel ms r))
          \<and> getModel (fst (getTextModel ms r)) r = Some (snd (getTextModel ms r)))"
  by (auto simp add: getTextModel_def createModel_def getModel_def isDisposed_def
        AList.update_conv' Let_def)

theorem getTextModel_existing_or_create_witness:
  "getTextModel
     \<lparr>models = [(\<lparr>scheme = utf16 ''terminal-inline-chat'', path = utf16 ''terminal-inline-chat-1'',
                   fragment = utf16 ''ls''\<rparr>,
                 \<lparr>content = utf16 ''ls -la'', languageId = None, disposed = False\<rparr>)]\<rparr>
     \<lparr>scheme = utf16 ''terminal-inline-chat'', path = utf16 ''terminal-inline-chat-1'',
       fragment = utf16 ''ls''\<rparr>
   = (\<lparr>models = [(\<lparr>scheme = utf16 ''terminal-inline-chat'', path = utf16 ''terminal-inline-chat-1'',
                   fragment = utf16 ''ls''\<rparr>,
                 \<lparr>content = utf16 ''ls -la'', languageId = None, disposed = False\<rparr>)]\<rparr>,
      \<lparr>content = utf16 ''ls -la'', languageId = None, disposed = False\<rparr>)
   \<and> content (snd (getTextModel \<lparr>models = []\<rparr>
        \<lparr>scheme = utf16 ''terminal-inline-chat'', path = utf16 ''terminal-inline-chat-1'',
          fragment = utf16 ''pwd''\<rparr>))
     = utf16 ''pwd''"
proof -
  let ?r = "\<lparr>scheme = utf16 ''terminal-inline-chat'', path = utf16 ''terminal-inline-chat-1'',
             fragment = utf16 ''ls''\<rparr>"
  let ?m = "\<lparr>content = utf16 ''ls -la'', languageId = None, disposed = False\<rparr>"
  let ?r' = "\<lparr>scheme = utf16 ''terminal-inline-chat'', path = utf16 ''terminal-inline-chat-1'',
              fragment = utf16 ''pwd''\<rparr>"
  have present: "getModel \<lparr>models = [(?r, ?m)]\<rparr> ?r = Some ?m \<and> \<not> isDisposed ?m"
    by (simp add: getModel_def isDisposed_def)
  have absent: "getModel \<lparr>models = []\<rparr> ?r' = None"
    by (simp add: getModel_def)
  from present getTextModel_existing_or_create [of "\<lparr>models = [(?r, ?m)]\<rparr>" ?r]
  have "getTextModel \<lparr>models = [(?r, ?m)]\<rparr> ?r = (\<lparr>models = [(?r, ?m)]\<rparr>, ?m)"
    by blast
  moreover from absent getTextModel_existing_or_create [of "\<lparr>models = []\<rparr>" ?r']
  have "content (snd (getTextModel \<lparr>models = []\<rparr> ?r')) = fragment ?r'"
    by blast
  ultimately show ?thesis by simp
qed

section \<open>Properties of the telemetry appender\<close>

text \<open>
  Claim C8. Constructing the appender is constructing the base class with the same four
  arguments in the same order, whatever the base class is: it throws exactly when the base
  constructor throws, and the same error; the object it builds holds the fields of the
  object the base constructor builds and offers its methods, no more; the one difference
  is the name of the class at the head of the prototype chain.
\<close>

theorem OneDataSystemWebAppender_adds_nothing:
  "(\<forall>err. OneDataSystemWebAppender super isInternalTelemetry eventPrefix defaultData
              iKeyOrClientFactory = Inl err
          \<longleftrightarrow> super isInternalTelemetry eventPrefix defaultData iKeyOrClientFactory = Inl err)
   \<and> (\<forall>this. super isInternalTelemetry eventPrefix defaultData iKeyOrClientFactory = Inr this
          \<longrightarrow> (\<exists>obj. OneDataSystemWebAppender super isInternalTelemetry eventPrefix defaultData
                        iKeyOrClientFactory = Inr obj
                  \<and> fieldValues obj = fieldValues this
                  \<and> methodNames obj = methodNames this
                  \<and> prototypeChain obj = ''OneDataSystemWebAppender'' # prototypeChain this))"
  by (cases "super isInternalTelemetry eventPrefix defaultData iKeyOrClientFactory")
     (simp_all add: OneDataSystemWebAppender_def OneDataSystemWebAppender_class_def extend_def)

theorem OneDataSystemWebAppender_adds_nothing_witness:
  "example_base_appender True (utf16 ''monacoworkbench'') None (IKey [])
     = Inl ''Invalid instrumentation key''
   \<and> OneDataSystemWebAppender example_base_appender True (utf16 ''monacoworkbench'') None (IKey [])
     = Inl ''Invalid instrumentation key''
   \<and> example_base_appender True (utf16 ''monacoworkbench'') None (IKey (utf16 ''key''))
     = Inr \<lparr>prototypeChain = [''AbstractOneDataSystemAppender''],
            fieldValues = [(''_eventPrefix'', utf16 ''monacoworkbench'')],
            methodNames = [''log'', ''flush'']\<rparr>
   \<and> OneDataSystemWebAppender example_base_appender True (utf16 ''monacoworkbench'') None
        (IKey (utf16 ''key''))
     = Inr \<lparr>prototypeChain = [''OneDataSystemWebAppender'', ''AbstractOneDataSystemAppender''],
            fieldValues = [(''_eventPrefix'', utf16 ''monacoworkbench'')],
            methodNames = [''log'', ''flush'']\<rparr>"
proof -
  let ?p = "utf16 ''monacoworkbench''"
  have thrown: "example_base_appender True ?p None (IKey []) = Inl ''Invalid instrumentation key''"
    by simp
  have built: "example_base_appender True ?p None (IKey (utf16 ''key''))
     = Inr \<lparr>prototypeChain = [''AbstractOneDataSystemAppender''],
            fieldValues = [(''_eventPrefix'', ?p)],
            methodNames = [''log'', ''flush'']\<rparr>"
    by (simp add: utf16_def)
  from OneDataSystemWebAppender_adds_nothing
    [of example_base_appender True ?p None "IKey []", THEN conjunct1, rule_format,
     of "''Invalid instrumentation key''"] thrown
  have a: "OneDataSystemWebAppender example_base_appender True ?p None (IKey [])
     = Inl ''Invalid instrumentation key''"
    by (simp only:)
  from OneDataSystemWebAppender_adds_nothing
    [of example_base_appender True ?p None "IKey (utf16 ''key'')", THEN conjunct2, rule_format,
     OF built]
  obtain obj where obj:
    "OneDataSystemWebAppender example_base_appender True ?p None (IKey (utf16 ''key'')) = Inr obj
     \<and> fieldValues obj = fieldValues \<lparr>prototypeChain = [''AbstractOneDataSystemAppender''],
            fieldValues = [(''_eventPrefix'', ?p)], methodNames = [''log'', ''flush'']\<rparr>
     \<and> methodNames obj = methodNames \<lparr>prototypeChain = [''AbstractOneDataSystemAppender''],
            fieldValues = [(''_eventPrefix'', ?p)], methodNames = [''log'', ''flush'']\<rparr>
     \<and> prototypeChain obj = ''OneDataSystemWebAppender'' #
          prototypeChain \<lparr>prototypeChain = [''AbstractOneDataSystemAppender''],
            fieldValues = [(''_eventPrefix'', ?p)], methodNames = [''log'', ''flush'']\<rparr>" ..
  have "obj = \<lparr>prototypeChain = [''OneDataSystemWebAppender'', ''AbstractOneDataSystemAppender''],
            fieldValues = [(''_eventPrefix'', ?p)], methodNames = [''log'', ''flush'']\<rparr>"
    using obj by (intro js_object.equality) simp_all
  with obj have b: "OneDataSystemWebAppender example_base_appender True ?p None
        (IKey (utf16 ''key''))
     = Inr \<lparr>prototypeChain = [''OneDataSystemWebAppender'', ''AbstractOneDataSystemAppender''],
            fieldValues = [(''_eventPrefix'', ?p)], methodNames = [''log'', ''flush'']\<rparr>"
    by simp
  from thrown a built b show ?thesis by (intro conjI)
qed

section \<open>Properties of the panel\<close>

lemma hide_calls: "calls (hide w) = calls w @ [InstanceFocus]"
  by (simp add: hide_def reset_def dispose_def Let_def split: option.splits)

lemma hide_responseEditor: "responseEditor (hide w) = None"
  by (simp add: hide_def reset_def dispose_def Let_def split: option.splits)

lemma hide_context_keys:
  "focusedContextKey (hide w) = Some False" "visibleContextKey (hide w) = Some False"
  by (simp_all add: hide_def reset_def dispose_def Let_def split: option.splits)

lemma hide_container_class: "utf16 ''hide'' \<in> set (classList (container (hide w)))"
  by (simp add: hide_def reset_def dispose_def Let_def classList_add_def removeChild_def
      split: option.splits)

lemma hide_inlineChatWidget:
  "inlineChatWidget (hide w) =
     (inlineChatWidget w)\<lparr>
        placeholder := localize ''default.placeholder'' ''Ask how to do something in the terminal'',
        info := localize ''welcome.1'' ''AI-generated commands may be incorrect'',
        chatMessage := None, followUps := None, progress := False, toolbar := False\<rparr>"
  by (simp add: hide_def reset_def dispose_def Let_def updateInfo_def updateChatMessage_def
      updateFollowUps_def updateProgress_def updateToolbar_def split: option.splits)

lemma hide_disposes:
  "disposedInstances (hide w) =
     disposedInstances w @
       (case responseEditor w of None \<Rightarrow> [] | Some e \<Rightarrow> [widgetRef (editor e), instanceRef e])"
  "childNodes (container (hide w)) =
     (case responseEditor w of None \<Rightarrow> childNodes (container w)
      | Some e \<Rightarrow> removeAll (EditorContainerNode (instanceRef e)) (childNodes (container w)))"
  by (simp_all add: hide_def reset_def dispose_def Let_def classList_add_def removeChild_def
      split: option.splits)

lemma reveal_context_keys:
  "focusedContextKey (reveal w) = Some True" "visibleContextKey (reveal w) = Some True"
  by (simp_all add: reveal_def Let_def)

lemmas panel_defs =
  TerminalChatWidget_new_def renderTerminalCommand_def TerminalChatResponseEditor_new_def
  getTextModel_def getModel_def createModel_def classList_add_def createElement_def
  appendChild_def prepend_def updateInfo_def editor_show_def editor_setValue_def
  CodeEditorWidget_setValue_def dom_show_def runMicrotasks_def model_then_def setModel_def
  updateModel_def setLanguage_def Let_def

lemma example_response:
  "map_option instanceRef (responseEditor example_panel_with_response) = Some 2"
  by (simp add: panel_defs)

lemma example_response_value:
  "map_option (editor_getValue (modelService example_panel_with_response))
     (responseEditor example_panel_with_response)
     = Some (utf16 ''  ls -la '')"
  by (simp add: panel_defs editor_getValue_def CodeEditorWidget_getValue_def)

text \<open>
  Claim C4. After reveal both context keys are true. After hide both are false, the container
  carries the class hide, the placeholder is the default one, the response editor is
  absent and the one there was is disposed and removed from the container, the chat
  message, the follow-ups, the progress and the toolbar are cleared, and the terminal
  instance has been asked for the focus.
\<close>

theorem reveal_hide_state:
  "focusedContextKey (reveal w) = Some True \<and> visibleContextKey (reveal w) = Some True
   \<and> focusedContextKey (hide w) = Some False \<and> visibleContextKey (hide w) = Some False
   \<and> utf16 ''hide'' \<in> set (classList (container (hide w)))
   \<and> placeholder (inlineChatWidget (hide w)) =
       localize ''default.placeholder'' ''Ask how to do something in the terminal''
   \<and> responseEditor (hide w) = None
   \<and> (\<forall>e. responseEditor w = Some e \<longrightarrow>
         instanceRef e \<in> set (disposedInstances (hide w))
         \<and> EditorContainerNode (instanceRef e) \<notin> set (childNodes (container (hide w))))
   \<and> chatMessage (inlineChatWidget (hide w)) = None
   \<and> followUps (inlineChatWidget (hide w)) = None
   \<and> \<not> progress (inlineChatWidget (hide w))
   \<and> \<not> toolbar (inlineChatWidget (hide w))
   \<and> calls (hide w) = calls w @ [InstanceFocus]"
  by (simp add: reveal_context_keys hide_context_keys hide_container_class hide_inlineChatWidget
      hide_responseEditor hide_disposes hide_calls)

theorem reveal_hide_state_witness:
  "map_option instanceRef (responseEditor example_panel_with_response) = Some 2
   \<and> 2 \<in> set (disposedInstances (hide example_panel_with_response))
   \<and> EditorContainerNode 2 \<notin> set (childNodes (container (hide example_panel_with_response)))
   \<and> visibleContextKey (hide (reveal example_panel_with_response)) = Some False
   \<and> visibleContextKey (reveal (hide example_panel_with_response)) = Some True"
proof -
  obtain e where e: "responseEditor example_panel_with_response = Some e" "instanceRef e = 2"
    using example_response by auto
  from e reveal_hide_state [of example_panel_with_response]
  have "2 \<in> set (disposedInstances (hide example_panel_with_response))
        \<and> EditorContainerNode 2 \<notin> set (childNodes (container (hide example_panel_with_response)))"
    by auto
  moreover from reveal_hide_state [of "reveal example_panel_with_response"]
  have "visibleContextKey (hide (reveal example_panel_with_response)) = Some False"
    by blast
  moreover from reveal_hide_state [of "hide example_panel_with_response"]
  have "visibleContextKey (reveal (hide example_panel_with_response)) = Some True"
    by blast
  ultimately show ?thesis using example_response by blast
qed

text \<open>
  Claim C1. With a response editor holding the text t, acceptCommand trims t; when the
  trimmed text is not empty it runs exactly the trimmed text with the flag on the terminal
  instance and then hides the panel, and when it is empty the panel is left as it is.
\<close>

theorem acceptCommand_forwards_trimmed:
  assumes "responseEditor w = Some e"
  shows "(trim (editor_getValue (modelService w) e) \<noteq> [] \<longrightarrow>
            acceptCommand shouldExecute w =
              hide (w\<lparr>calls := calls w @ [RunCommand (trim (editor_getValue (modelService w) e)) shouldExecute]\<rparr>)
            \<and> calls (acceptCommand shouldExecute w) =
                calls w @ [RunCommand (trim (editor_getValue (modelService w) e)) shouldExecute, InstanceFocus]
            \<and> utf16 ''hide'' \<in> set (classList (container (acceptCommand shouldExecute w)))
            \<and> visibleContextKey (acceptCommand shouldExecute w) = Some False
            \<and> focusedContextKey (acceptCommand shouldExecute w) = Some False
            \<and> responseEditor (acceptCommand shouldExecute w) = None)
         \<and> (trim (editor_getValue (modelService w) e) = [] \<longrightarrow> acceptCommand shouldExecute w = w)"
  using assms
  by (simp add: acceptCommand_def hide_calls hide_container_class hide_context_keys
      hide_responseEditor)

theorem acceptCommand_forwards_trimmed_witness:
  "map_option (editor_getValue (modelService example_panel_with_response))
     (responseEditor example_panel_with_response)
     = Some (utf16 ''  ls -la '')
   \<and> calls (acceptCommand True example_panel_with_response) =
       [AcceptResponse (utf16 ''  ls -la '') 7, RunCommand (utf16 ''ls -la'') True, InstanceFocus]
   \<and> utf16 ''hide'' \<in> set (classList (container (acceptCommand True example_panel_with_response)))
   \<and> acceptCommand False
        (setValue None (runMicrotasks (renderTerminalCommand [0x20, 0x0A] 8 None example_panel)))
       = setValue None (runMicrotasks (renderTerminalCommand [0x20, 0x0A] 8 None example_panel))"
proof -
  obtain e where e: "responseEditor example_panel_with_response = Some e"
      "editor_getValue (modelService example_panel_with_response) e = utf16 ''  ls -la ''"
    using example_response_value by auto
  have c: "calls example_panel_with_response = [AcceptResponse (utf16 ''  ls -la '') 7]"
    by (simp add: panel_defs)
  have t: "trim (editor_getValue (modelService example_panel_with_response) e) = utf16 ''ls -la''"
    using e(2) trim_example by simp
  have ne: "trim (editor_getValue (modelService example_panel_with_response) e) \<noteq> []"
    unfolding t by (simp add: utf16_def)
  note forwarded =
    acceptCommand_forwards_trimmed [OF e(1), of True, THEN conjunct1, rule_format, OF ne]
  have "calls (acceptCommand True example_panel_with_response) =
          [AcceptResponse (utf16 ''  ls -la '') 7, RunCommand (utf16 ''ls -la'') True, InstanceFocus]"
    using forwarded [THEN conjunct2, THEN conjunct1] unfolding t c by simp
  moreover
  have "utf16 ''hide'' \<in> set (classList (container (acceptCommand True example_panel_with_response)))"
    by (rule forwarded [THEN conjunct2, THEN conjunct2, THEN conjunct1])
  moreover
  let ?w = "setValue None (runMicrotasks (renderTerminalCommand [0x20, 0x0A] 8 None example_panel))"
  obtain e' where e': "responseEditor ?w = Some e'"
      "editor_getValue (modelService ?w) e' = [0x20, 0x0A]"
    by (simp add: panel_defs setValue_def falsy_def editor_hide_def editor_getValue_def
        CodeEditorWidget_getValue_def)
  have "trim (editor_getValue (modelService ?w) e') = []"
    unfolding e'(2) by (simp add: trim_def isWhiteSpace_def)
  then have "acceptCommand False ?w = ?w"
    by (rule acceptCommand_forwards_trimmed [OF e'(1), of False, THEN conjunct2, rule_format])
  ultimately show ?thesis using example_response_value by (intro conjI)
qed

text \<open>
  Claim C9. Without a response editor, acceptCommand leaves the panel as it is for either
  flag: no command is run and the panel is not hidden.
\<close>

theorem acceptCommand_without_response_editor:
  "responseEditor w = None \<Longrightarrow> acceptCommand shouldExecute w = w"
  by (simp add: acceptCommand_def)

theorem acceptCommand_without_response_editor_witness:
  "responseEditor example_panel = None
   \<and> acceptCommand True example_panel = example_panel
   \<and> responseEditor (hide example_panel_with_response) = None
   \<and> acceptCommand False (hide example_panel_with_response) = hide example_panel_with_response"
proof -
  have a: "responseEditor example_panel = None"
    by (simp add: TerminalChatWidget_new_def Let_def)
  have b: "responseEditor (hide example_panel_with_response) = None"
    by (rule hide_responseEditor)
  from a b acceptCommand_without_response_editor [of example_panel True]
    acceptCommand_without_response_editor [of "hide example_panel_with_response" False]
  show ?thesis by blast
qed

text \<open>
  Claim C5. setValue writes the value, or the empty string for an absent one, to the input of
  the inline chat widget; an empty or absent value also hides the response editor, and a
  non-empty one leaves the response editor as it is.
\<close>

theorem setValue_input_and_response:
  "input (setValue val w) = (case val of None \<Rightarrow> [] | Some v \<Rightarrow> v)
   \<and> (val = None \<or> val = Some [] \<longrightarrow>
        setValue val w =
          w\<lparr>inlineChatWidget := (inlineChatWidget w)\<lparr>inputValue := []\<rparr>,
            responseEditor := map_option editor_hide (responseEditor w)\<rparr>
        \<and> (\<forall>e. responseEditor w = Some e \<longrightarrow>
              responseEditor (setValue val w)
                = Some (e\<lparr>editorContainer :=
                           (editorContainer e)\<lparr>style_display := utf16 ''none''\<rparr>\<rparr>)))
   \<and> (\<forall>v. val = Some v \<and> v \<noteq> [] \<longrightarrow>
        setValue val w = w\<lparr>inlineChatWidget := (inlineChatWidget w)\<lparr>inputValue := v\<rparr>\<rparr>
        \<and> responseEditor (setValue val w) = responseEditor w)"
  by (auto simp add: setValue_def input_def falsy_def editor_hide_def dom_hide_def Let_def
      split: option.splits)

theorem setValue_input_and_response_witness:
  "map_option (style_display \<circ> editorContainer) (responseEditor example_panel_with_response) = Some []
   \<and> map_option (style_display \<circ> editorContainer)
        (responseEditor (setValue (Some []) example_panel_with_response)) = Some (utf16 ''none'')
   \<and> input (setValue (Some []) example_panel_with_response) = []
   \<and> utf16 ''foo'' \<noteq> []
   \<and> input (setValue (Some (utf16 ''foo'')) example_panel_with_response) = utf16 ''foo''
   \<and> responseEditor (setValue (Some (utf16 ''foo'')) example_panel_with_response)
       = responseEditor example_panel_with_response"
proof -
  obtain e where e: "responseEditor example_panel_with_response = Some e"
      "style_display (editorContainer e) = []"
    by (simp add: panel_defs)
  have ne: "utf16 ''foo'' \<noteq> []"
    by (simp add: utf16_def)
  from setValue_input_and_response [of "Some []" example_panel_with_response] e(1)
  have "responseEditor (setValue (Some []) example_panel_with_response)
          = Some (e\<lparr>editorContainer := (editorContainer e)\<lparr>style_display := utf16 ''none''\<rparr>\<rparr>)
        \<and> input (setValue (Some []) example_panel_with_response)
            = (case Some [] of None \<Rightarrow> [] | Some v \<Rightarrow> v)"
    by blast
  then have "map_option (style_display \<circ> editorContainer)
          (responseEditor (setValue (Some []) example_panel_with_response)) = Some (utf16 ''none'')
        \<and> input (setValue (Some []) example_panel_with_response) = []"
    by simp
  moreover from ne setValue_input_and_response [of "Some (utf16 ''foo'')" example_panel_with_response]
  have "input (setValue (Some (utf16 ''foo'')) example_panel_with_response)
            = (case Some (utf16 ''foo'') of None \<Rightarrow> [] | Some v \<Rightarrow> v)
        \<and> responseEditor (setValue (Some (utf16 ''foo'')) example_panel_with_response)
            = responseEditor example_panel_with_response"
    by blast
  then have "input (setValue (Some (utf16 ''foo'')) example_panel_with_response) = utf16 ''foo''
        \<and> responseEditor (setValue (Some (utf16 ''foo'')) example_panel_with_response)
            = responseEditor example_panel_with_response"
    by simp
  ultimately show ?thesis using e ne by simp
qed

section \<open>Properties of renderTerminalCommand and renderMessage\<close>

lemma getTextModel_registered:
  "getModel (fst (getTextModel ms r)) r = Some (snd (getTextModel ms r))"
  by (simp add: getTextModel_def createModel_def getModel_def isDisposed_def
      AList.update_conv' Let_def split: option.splits)



lemma renderTerminalCommand_creates:
  "responseEditor w = None \<Longrightarrow>
     map_option instanceRef (responseEditor (renderTerminalCommand command requestId shellType w))
       = Some (instancesCreated w)
     \<and> instancesCreated (renderTerminalCommand command requestId shellType w)
         = instancesCreated w + 2"
  by (simp add: renderTerminalCommand_def TerminalChatResponseEditor_new_def Let_def
      split: prod.splits)





lemma editor_setValue_attached:
  assumes "editorModel (editor e) = Some resource" "getModel ms resource = Some m"
  shows "editor_getValue (editor_setValue val e ms) e = val"
  using assms
  by (simp add: editor_getValue_def editor_setValue_def CodeEditorWidget_getValue_def
      CodeEditorWidget_setValue_def updateModel_def getModel_def AList.update_conv')

lemma editor_setValue_detached:
  assumes "editorModel (editor e) = None"
  shows "editor_setValue val e ms = ms" "editor_getValue ms e = []"
  using assms
  by (simp_all add: editor_getValue_def editor_setValue_def CodeEditorWidget_getValue_def
      CodeEditorWidget_setValue_def)





text \<open>
  Claim C10. With a response editor present, renderMessage hides it and neither disposes it
  nor changes its text: the panel holds the same editor, and nothing of the panel changes
  but the visibility of the editor, the chat message and the log of calls, which gains the
  notification of the accessibility service.
\<close>

theorem renderMessage_keeps_response_editor:
  assumes "responseEditor w = Some e"
  shows "renderMessage message accessibilityRequestId requestId w =
           w\<lparr>responseEditor :=
                Some (e\<lparr>editorContainer := (editorContainer e)\<lparr>style_display := utf16 ''none''\<rparr>\<rparr>),
             inlineChatWidget :=
                (inlineChatWidget w)\<lparr>chatMessage :=
                   Some \<lparr>msg_message = message, msg_requestId = requestId,
                         msg_providerId = utf16 ''terminal''\<rparr>\<rparr>,
             calls := calls w @ [AcceptResponse message accessibilityRequestId]\<rparr>
         \<and> map_option instanceRef
             (responseEditor (renderMessage message accessibilityRequestId requestId w))
             = Some (instanceRef e)
         \<and> map_option
             (editor_getValue
                (modelService (renderMessage message accessibilityRequestId requestId w)))
             (responseEditor (renderMessage message accessibilityRequestId requestId w))
             = Some (editor_getValue (modelService w) e)
         \<and> disposedInstances (renderMessage message accessibilityRequestId requestId w)
             = disposedInstances w
         \<and> container (renderMessage message accessibilityRequestId requestId w) = container w"
  using assms
  by (simp add: renderMessage_def Let_def editor_hide_def dom_hide_def updateChatMessage_def
      editor_getValue_def)

theorem renderMessage_keeps_response_editor_witness:
  "map_option instanceRef (responseEditor example_panel_with_response) = Some 2
   \<and> map_option instanceRef
        (responseEditor (renderMessage (utf16 ''done'') 9 (utf16 ''r1'') example_panel_with_response))
       = Some 2
   \<and> map_option
        (editor_getValue
           (modelService (renderMessage (utf16 ''done'') 9 (utf16 ''r1'') example_panel_with_response)))
        (responseEditor (renderMessage (utf16 ''done'') 9 (utf16 ''r1'') example_panel_with_response))
       = Some (utf16 ''  ls -la '')
   \<and> map_option (style_display \<circ> editorContainer)
        (responseEditor (renderMessage (utf16 ''done'') 9 (utf16 ''r1'') example_panel_with_response))
       = Some (utf16 ''none'')
   \<and> disposedInstances (renderMessage (utf16 ''done'') 9 (utf16 ''r1'') example_panel_with_response)
       = []"
proof -
  let ?w' = "renderMessage (utf16 ''done'') 9 (utf16 ''r1'') example_panel_with_response"
  obtain e where e: "responseEditor example_panel_with_response = Some e"
      "instanceRef e = 2"
      "editor_getValue (modelService example_panel_with_response) e = utf16 ''  ls -la ''"
    using example_response example_response_value by auto
  have d: "disposedInstances example_panel_with_response = []"
    by (simp add: panel_defs)
  note th = renderMessage_keeps_response_editor [OF e(1), of "utf16 ''done''" 9 "utf16 ''r1''"]
  note whole = th [THEN conjunct1]
  note same_ref = th [THEN conjunct2, THEN conjunct1]
  note same_text = th [THEN conjunct2, THEN conjunct2, THEN conjunct1]
  note same_disposed = th [THEN conjunct2, THEN conjunct2, THEN conjunct2, THEN conjunct1]
  have "map_option instanceRef (responseEditor ?w') = Some 2"
    by (simp only: same_ref e(2))
  moreover have "map_option (editor_getValue (modelService ?w')) (responseEditor ?w')
      = Some (utf16 ''  ls -la '')"
    by (simp only: same_text e(3))
  moreover have "map_option (style_display \<circ> editorContainer) (responseEditor ?w')
      = Some (utf16 ''none'')"
    unfolding whole by simp
  moreover have "disposedInstances ?w' = []"
    by (simp only: same_disposed d)
  ultimately show ?thesis using example_response by (intro conjI)
qed

end
